theory Spec2Isabelle
  imports Complex_Main "HOL-Library.Word"
begin

unbundle bit_operations_syntax

section \<open>Python values, exceptions and the environment\<close>

text \<open>
  The repository is Python. Text (\<open>str\<close>) is modelled as \<^typ>\<open>string\<close>, one
  \<^typ>\<open>char\<close> per code point, for code points below 256; \<open>len\<close> is
  \<^const>\<open>length\<close>. Values of type \<open>Any\<close> (metadata entries, the result of the
  chain) are the datatype below.
\<close>

datatype pyval = PNone | PStr string | PInt int | PBool bool

text \<open>Truth value testing, as \<open>not x\<close>, \<open>x or y\<close> and \<open>if x\<close> use it.\<close>

fun truthy :: "pyval \<Rightarrow> bool" where
  "truthy PNone = False"
| "truthy (PStr s) = (s \<noteq> [])"
| "truthy (PInt i) = (i \<noteq> 0)"
| "truthy (PBool b) = b"

definition py_or :: "pyval \<Rightarrow> pyval \<Rightarrow> pyval" where
  "py_or a b = (if truthy a then a else b)"

definition digit_char :: "nat \<Rightarrow> char" where
  "digit_char n = ''0123456789'' ! (n mod 10)"

function dec_nat :: "nat \<Rightarrow> string" where
  "dec_nat n = (if n < 10 then [digit_char n] else dec_nat (n div 10) @ [digit_char (n mod 10)])"
  by pat_completeness auto
termination
  by (relation "measure (\<lambda>n. n)") auto

definition dec_int :: "int \<Rightarrow> string" where
  "dec_int i = (if i < 0 then CHR ''-'' # dec_nat (nat (- i)) else dec_nat (nat i))"

text \<open>\<open>str(x)\<close>, which is also what an f-string field \<open>{x}\<close> renders.\<close>

fun py_str :: "pyval \<Rightarrow> string" where
  "py_str PNone = ''None''"
| "py_str (PStr s) = s"
| "py_str (PInt i) = dec_int i"
| "py_str (PBool b) = (if b then ''True'' else ''False'')"

type_synonym pydict = "string \<rightharpoonup> pyval"

text \<open>\<open>d.get(k)\<close>: the stored value, \<open>None\<close> for a missing key.\<close>

definition dict_get :: "pydict \<Rightarrow> string \<Rightarrow> pyval" where
  "dict_get d k = (case d k of None \<Rightarrow> PNone | Some v \<Rightarrow> v)"

text \<open>
  Exceptions are values. The third field is Python's \<open>__context__\<close>: an exception raised
  while another one is being handled carries the handled one.
\<close>

datatype exn_class =
  TypeError | RuntimeError | KeyError | AttributeError | ValueError
  | FileNotFoundError | ValidationError | ProjectException | LibraryError

datatype exn = Exn (exn_cls: exn_class) (exn_arg: exn_arg) (exn_context: "exn option")
  and exn_arg = Msg string | Err exn

subsection \<open>SHA-256 as \<open>hashlib.sha256(b).hexdigest()\<close> computes it (FIPS 180-4)\<close>

text \<open>The round constants, eight to a row.\<close>

definition K256 :: "32 word list" where
  "K256 = concat [
    [0x428a2f98, 0x71374491, 0xb5c0fbcf, 0xe9b5dba5, 0x3956c25b, 0x59f111f1, 0x923f82a4, 0xab1c5ed5],
    [0xd807aa98, 0x12835b01, 0x243185be, 0x550c7dc3, 0x72be5d74, 0x80deb1fe, 0x9bdc06a7, 0xc19bf174],
    [0xe49b69c1, 0xefbe4786, 0x0fc19dc6, 0x240ca1cc, 0x2de92c6f, 0x4a7484aa, 0x5cb0a9dc, 0x76f988da],
    [0x983e5152, 0xa831c66d, 0xb00327c8, 0xbf597fc7, 0xc6e00bf3, 0xd5a79147, 0x06ca6351, 0x14292967],
    [0x27b70a85, 0x2e1b2138, 0x4d2c6dfc, 0x53380d13, 0x650a7354, 0x766a0abb, 0x81c2c92e, 0x92722c85],
    [0xa2bfe8a1, 0xa81a664b, 0xc24b8b70, 0xc76c51a3, 0xd192e819, 0xd6990624, 0xf40e3585, 0x106aa070],
    [0x19a4c116, 0x1e376c08, 0x2748774c, 0x34b0bcb5, 0x391c0cb3, 0x4ed8aa4a, 0x5b9cca4f, 0x682e6ff3],
    [0x748f82ee, 0x78a5636f, 0x84c87814, 0x8cc70208, 0x90befffa, 0xa4506ceb, 0xbef9a3f7, 0xc67178f2]]"

definition H256 :: "32 word list" where
  "H256 = [0x6a09e667, 0xbb67ae85, 0x3c6ef372, 0xa54ff53a,
           0x510e527f, 0x9b05688c, 0x1f83d9ab, 0x5be0cd19]"

definition Ch :: "32 word \<Rightarrow> 32 word \<Rightarrow> 32 word \<Rightarrow> 32 word" where
  "Ch x y z = (x AND y) XOR (NOT x AND z)"

definition Maj :: "32 word \<Rightarrow> 32 word \<Rightarrow> 32 word \<Rightarrow> 32 word" where
  "Maj x y z = (x AND y) XOR (x AND z) XOR (y AND z)"

definition bsig0 :: "32 word \<Rightarrow> 32 word" where
  "bsig0 x = word_rotr 2 x XOR word_rotr 13 x XOR word_rotr 22 x"

definition bsig1 :: "32 word \<Rightarrow> 32 word" where
  "bsig1 x = word_rotr 6 x XOR word_rotr 11 x XOR word_rotr 25 x"

definition ssig0 :: "32 word \<Rightarrow> 32 word" where
  "ssig0 x = word_rotr 7 x XOR word_rotr 18 x XOR drop_bit 3 x"

definition ssig1 :: "32 word \<Rightarrow> 32 word" where
  "ssig1 x = word_rotr 17 x XOR word_rotr 19 x XOR drop_bit 10 x"

fun schedule :: "nat \<Rightarrow> 32 word list \<Rightarrow> 32 word list" where
  "schedule 0 ws = ws"
| "schedule (Suc n) ws =
     (let t = length ws
      in schedule n (ws @ [ssig1 (ws ! (t - 2)) + ws ! (t - 7) + ssig0 (ws ! (t - 15)) + ws ! (t - 16)]))"

fun be_word :: "8 word list \<Rightarrow> 32 word" where
  "be_word [] = 0"
| "be_word (b # bs) = push_bit (8 * length bs) (ucast b) OR be_word bs"

definition block_words :: "8 word list \<Rightarrow> 32 word list" where
  "block_words blk = map (\<lambda>i. be_word (take 4 (drop (4 * i) blk))) [0..<16]"

type_synonym regs = "32 word \<times> 32 word \<times> 32 word \<times> 32 word \<times> 32 word \<times> 32 word \<times> 32 word \<times> 32 word"

fun round256 :: "regs \<Rightarrow> 32 word \<times> 32 word \<Rightarrow> regs" where
  "round256 (a, b, c, d, e, f, g, h) (k, w) =
     (let t1 = h + bsig1 e + Ch e f g + k + w;
          t2 = bsig0 a + Maj a b c
      in (t1 + t2, a, b, c, d + t1, e, f, g))"

fun regs_of :: "32 word list \<Rightarrow> regs" where
  "regs_of [a, b, c, d, e, f, g, h] = (a, b, c, d, e, f, g, h)"
| "regs_of _ = (0, 0, 0, 0, 0, 0, 0, 0)"

fun list_of_regs :: "regs \<Rightarrow> 32 word list" where
  "list_of_regs (a, b, c, d, e, f, g, h) = [a, b, c, d, e, f, g, h]"

definition compress :: "32 word list \<Rightarrow> 8 word list \<Rightarrow> 32 word list" where
  "compress hs blk =
     map2 (+) hs
       (list_of_regs (foldl round256 (regs_of hs) (zip K256 (schedule 48 (block_words blk)))))"

definition be64 :: "nat \<Rightarrow> 8 word list" where
  "be64 n = map (\<lambda>i. ucast (drop_bit (8 * (7 - i)) (word_of_nat n :: 64 word))) [0..<8]"

definition sha256_pad :: "8 word list \<Rightarrow> 8 word list" where
  "sha256_pad bs =
     bs @ [0x80] @ replicate ((119 - length bs mod 64) mod 64) 0 @ be64 (8 * length bs)"

definition blocks :: "8 word list \<Rightarrow> 8 word list list" where
  "blocks bs = map (\<lambda>i. take 64 (drop (64 * i) bs)) [0..<length bs div 64]"

definition sha256 :: "8 word list \<Rightarrow> 32 word list" where
  "sha256 bs = foldl compress H256 (blocks (sha256_pad bs))"

definition hex_digit :: "nat \<Rightarrow> char" where
  "hex_digit n = ''0123456789abcdef'' ! (n mod 16)"

definition hex32 :: "32 word \<Rightarrow> string" where
  "hex32 w = map (\<lambda>i. hex_digit (unat (drop_bit (4 * (7 - i)) w AND 15))) [0..<8]"

definition hexdigest :: "32 word list \<Rightarrow> string" where
  "hexdigest ws = concat (map hex32 ws)"


text \<open>\<open>text.encode("utf-8")\<close> for code points below 256.\<close>

definition utf8_encode :: "string \<Rightarrow> 8 word list" where
  "utf8_encode s = concat (map (\<lambda>c. let n = (of_char c :: nat) in
      if n < 128 then [of_nat n] else [of_nat (192 + n div 64), of_nat (128 + n mod 64)]) s)"

definition sha256_hexdigest :: "string \<Rightarrow> string" where
  "sha256_hexdigest text = hexdigest (sha256 (utf8_encode text))"

section \<open>The index manager: fingerprints\<close>

text \<open>
  \<^verbatim>\<open>FaissManager._fingerprint(text, md)\<close>:
  \<^verbatim>\<open>src = md.get("source") or md.get("file_path"); rid = md.get("raw_id")\<close>,
  then \<^verbatim>\<open>f"{src}::{'' if rid is None else rid}"\<close> when \<open>src is not None\<close>, else the
  SHA-256 hex digest of the UTF-8 text.
\<close>

definition fingerprint :: "string \<Rightarrow> pydict \<Rightarrow> string" where
  "fingerprint text md =
     (let src = py_or (dict_get md ''source'') (dict_get md ''file_path'');
          rid = dict_get md ''raw_id''
      in if src \<noteq> PNone
         then py_str src @ ''::'' @ (if rid = PNone then '''' else py_str rid)
         else sha256_hexdigest text)"

text \<open>The rendering of the \<open>raw_id\<close> field of a fingerprint.\<close>

definition rid_str :: "pydict \<Rightarrow> string" where
  "rid_str md = (case dict_get md ''raw_id'' of PNone \<Rightarrow> '''' | v \<Rightarrow> py_str v)"

section \<open>The world: files, directories, the log, randomness\<close>

datatype level = DEBUG | INFO | WARNING | ERROR | CRITICAL

text \<open>A log message: literal text and the exceptions an f-string renders into it.\<close>

datatype frag = Txt string | ExnStr exn

type_synonym log_entry = "level \<times> frag list"

record world =
  files :: "string \<rightharpoonup> string"
  dirs :: "string set"
  logs :: "log_entry list"
  rand :: "nat \<Rightarrow> string"
  nrand :: nat

type_synonym 'a res = "(exn + 'a) \<times> world"

text \<open>
  Modelled from the spec: \<open>multi_doc_chat.exception.ProjectException\<close> is not among the
  sources. It is the single application-level exception, carrying the original cause:
  its first argument (a message or the wrapped exception) and, as \<open>__context__\<close>, the
  exception that was being handled when it was raised.
\<close>

definition ProjectException_new :: "exn_arg \<Rightarrow> exn option \<Rightarrow> exn" where
  "ProjectException_new a handled = Exn ProjectException a handled"

text \<open>
  Modelled from the spec: \<open>multi_doc_chat.logger\<close> is not among the sources. \<open>log\<close> is
  taken to offer the methods of Python's \<open>logging\<close>; looking up any other name is an
  \<open>AttributeError\<close>.
\<close>

definition apos :: string where
  "apos = [CHR 0x27]"

definition log_method :: "string \<Rightarrow> level option" where
  "log_method m =
     (if m = ''debug'' then Some DEBUG
      else if m = ''info'' then Some INFO
      else if m = ''warning'' then Some WARNING
      else if m = ''error'' then Some ERROR
      else if m = ''critical'' then Some CRITICAL
      else None)"

definition log_call :: "string \<Rightarrow> frag list \<Rightarrow> world \<Rightarrow> unit res" where
  "log_call m msg w =
     (case log_method m of
        None \<Rightarrow>
          (Inl (Exn AttributeError
                  (Msg (''module '' @ apos @ ''logging'' @ apos @ '' has no attribute ''
                        @ apos @ m @ apos)) None), w)
      | Some l \<Rightarrow> (Inr (), w\<lparr>logs := logs w @ [(l, msg)]\<rparr>))"

text \<open>\<open>uuid.uuid4().hex\<close>: the next value of the random source.\<close>

definition uuid4_hex :: "world \<Rightarrow> string \<times> world" where
  "uuid4_hex w = (rand w (nrand w), w\<lparr>nrand := Suc (nrand w)\<rparr>)"

definition mkdir :: "string \<Rightarrow> world \<Rightarrow> world" where
  "mkdir d w = w\<lparr>dirs := insert d (dirs w)\<rparr>"

definition path_exists :: "world \<Rightarrow> string \<Rightarrow> bool" where
  "path_exists w p = (files w p \<noteq> None \<or> p \<in> dirs w)"

subsection \<open>\<open>pathlib\<close> and string helpers (POSIX paths)\<close>

definition path_join :: "string \<Rightarrow> string \<Rightarrow> string" where
  "path_join d n = d @ ''/'' @ n"

fun split_on :: "char \<Rightarrow> string \<Rightarrow> string list" where
  "split_on c [] = [[]]"
| "split_on c (x # xs) =
     (if x = c then [] # split_on c xs
      else (case split_on c xs of [] \<Rightarrow> [[x]] | p # ps \<Rightarrow> (x # p) # ps))"

text \<open>\<open>Path(p).name\<close>: the last component, empty and \<open>.\<close> components dropped.\<close>

definition path_name :: "string \<Rightarrow> string" where
  "path_name p =
     (case filter (\<lambda>q. q \<noteq> [] \<and> q \<noteq> ''.'') (split_on (CHR ''/'') p) of
        [] \<Rightarrow> []
      | q # qs \<Rightarrow> last (q # qs))"

fun rfind_char :: "char \<Rightarrow> string \<Rightarrow> nat option" where
  "rfind_char c [] = None"
| "rfind_char c (x # xs) =
     (case rfind_char c xs of
        Some i \<Rightarrow> Some (Suc i)
      | None \<Rightarrow> (if x = c then Some 0 else None))"

text \<open>\<open>Path(p).suffix\<close> and \<open>Path(p).stem\<close>: split at the last dot when
  \<open>0 < i < len(name) - 1\<close>.\<close>

definition path_suffix :: "string \<Rightarrow> string" where
  "path_suffix p =
     (let n = path_name p
      in case rfind_char (CHR ''.'') n of
           None \<Rightarrow> []
         | Some i \<Rightarrow> (if 0 < i \<and> i < length n - 1 then drop i n else []))"

definition path_stem :: "string \<Rightarrow> string" where
  "path_stem p =
     (let n = path_name p
      in case rfind_char (CHR ''.'') n of
           None \<Rightarrow> n
         | Some i \<Rightarrow> (if 0 < i \<and> i < length n - 1 then take i n else n))"

definition lower_char :: "char \<Rightarrow> char" where
  "lower_char c =
     (let n = (of_char c :: nat)
      in if (65 \<le> n \<and> n \<le> 90) \<or> (192 \<le> n \<and> n \<le> 222 \<and> n \<noteq> 215)
         then char_of (n + 32) else c)"

definition py_lower :: "string \<Rightarrow> string" where
  "py_lower s = map lower_char s"

text \<open>The character class \<^verbatim>\<open>[a-zA-Z0-9_\-]\<close>.\<close>

definition safe_char :: "char \<Rightarrow> bool" where
  "safe_char c =
     (let n = (of_char c :: nat)
      in (97 \<le> n \<and> n \<le> 122) \<or> (65 \<le> n \<and> n \<le> 90) \<or> (48 \<le> n \<and> n \<le> 57)
         \<or> c = CHR ''_'' \<or> c = CHR ''-'')"

text \<open>\<^verbatim>\<open>re.sub(r'[^a-zA-Z0-9_\-]', '_', s)\<close>\<close>

definition re_sub_unsafe :: "string \<Rightarrow> string" where
  "re_sub_unsafe s = map (\<lambda>c. if safe_char c then c else CHR ''_'') s"

section \<open>\<open>utils/file_io.py\<close>: saving uploads\<close>

definition SUPPORTED_EXTENSIONS_io :: "string list" where
  "SUPPORTED_EXTENSIONS_io =
     [''.pdf'', ''.docx'', ''.txt'', ''.pptx'', ''.md'', ''.csv'', ''.xlsx'', ''.xls'',
      ''.db'', ''.sqlite'', ''.sqlite3'']"

text \<open>
  An uploaded object, by the attributes the code probes: \<open>filename\<close>, \<open>name\<close>, a
  \<open>file\<close> with \<open>read\<close>, \<open>read\<close>, \<open>getbuffer\<close>; each reader given by the bytes it
  returns.
\<close>

record upload =
  filename_attr :: "string option"
  name_attr :: "string option"
  file_read :: "string option"
  read_attr :: "string option"
  getbuffer_attr :: "string option"

text \<open>\<^verbatim>\<open>getattr(uf, "filename", getattr(uf, "name", "file"))\<close>\<close>

definition upload_name :: "upload \<Rightarrow> string" where
  "upload_name uf =
     (case filename_attr uf of
        Some n \<Rightarrow> n
      | None \<Rightarrow> (case name_attr uf of Some n \<Rightarrow> n | None \<Rightarrow> ''file''))"

text \<open>The bytes written inside \<^verbatim>\<open>with open(out, "wb")\<close>, lines 36 to 53.\<close>

definition upload_bytes :: "upload \<Rightarrow> exn + string" where
  "upload_bytes uf =
     (case file_read uf of
        Some b \<Rightarrow> Inr b
      | None \<Rightarrow>
          (case read_attr uf of
             Some b \<Rightarrow> Inr b
           | None \<Rightarrow>
               (case getbuffer_attr uf of
                  Some b \<Rightarrow> Inr b
                | None \<Rightarrow>
                    Inl (Exn ValueError
                      (Msg ''Unsupported uploaded file object; no readable interface'') None))))"

text \<open>The \<open>for uf in uploaded_files\<close> loop, accumulating \<open>saved\<close>.\<close>

fun save_loop :: "string \<Rightarrow> upload list \<Rightarrow> string list \<Rightarrow> world \<Rightarrow> string list res" where
  "save_loop target_dir [] saved w = (Inr saved, w)"
| "save_loop target_dir (uf # ufs) saved w =
     (let name = upload_name uf;
          ext = py_lower (path_suffix name)
      in if ext \<notin> set SUPPORTED_EXTENSIONS_io
         then (case log_call ''warrning'' [Txt (''Unsupported file skipped '' @ name)] w of
                 (Inl e, w') \<Rightarrow> (Inl e, w')
               | (Inr u, w') \<Rightarrow> save_loop target_dir ufs saved w')
         else
           (let safe_name = py_lower (re_sub_unsafe (path_stem name));
                (hex, w1) = uuid4_hex w;
                fname = safe_name @ ''_'' @ take 6 hex @ ext;
                out = path_join target_dir fname;
                w2 = w1\<lparr>files := (files w1)(out \<mapsto> [])\<rparr>
            in case upload_bytes uf of
                 Inl e \<Rightarrow> (Inl e, w2)
               | Inr b \<Rightarrow>
                   (let w3 = w2\<lparr>files := (files w2)(out \<mapsto> b)\<rparr>
                    in case log_call ''info''
                              [Txt (''File saved for ingestion, uploaded='' @ name
                                    @ '', saved_as='' @ out)] w3 of
                         (Inl e, w4) \<Rightarrow> (Inl e, w4)
                       | (Inr u, w4) \<Rightarrow> save_loop target_dir ufs (saved @ [out]) w4)))"

text \<open>
  \<^verbatim>\<open>save_uploaded_files(uploaded_files, target_dir)\<close>. The body ends without a
  \<open>return\<close>: a normal completion yields \<open>None\<close>, written \<^term>\<open>None\<close> here, and a
  returned list of paths would be \<open>Some paths\<close>.
\<close>

definition save_uploaded_files :: "upload list \<Rightarrow> string \<Rightarrow> world \<Rightarrow> string list option res" where
  "save_uploaded_files uploaded_files target_dir w =
     (case save_loop target_dir uploaded_files [] (mkdir target_dir w) of
        (Inr saved, w') \<Rightarrow> (Inr None, w')
      | (Inl e, w') \<Rightarrow>
          (case log_call ''error'' [Txt ''''] w' of
             (Inl e', w'') \<Rightarrow> (Inl e', w'')
           | (Inr u, w'') \<Rightarrow> (Inl (ProjectException_new (Err e) (Some e)), w'')))"

section \<open>\<open>utils/document_ops.py\<close>: loading documents\<close>

record document =
  page_content :: string
  metadata :: pydict

text \<open>
  The collaborators outside the repository: the document loaders, the text splitter,
  the FAISS vector store, \<open>json\<close>, the model loader and the LCEL chain of LangChain.
  They are parameters of the model; nothing is assumed of what they return.
\<close>

datatype faiss = Faiss (docstore: "document list")

datatype kwval = KInt int | KFloat real

record retriever =
  r_index :: faiss
  r_search_type :: string
  r_search_kwargs :: "string \<rightharpoonup> kwval"

record payload =
  p_input :: string
  p_chat_history :: "string list"

type_synonym chain = "payload \<Rightarrow> exn + pyval"

type_synonym ledger = "string \<rightharpoonup> bool"

type_synonym meta = "string \<rightharpoonup> ledger"

datatype model_loader = ModelLoader

record env =
  doc_loader :: "string \<Rightarrow> string \<Rightarrow> world \<Rightarrow> exn + document list"
  split_documents :: "document list option \<Rightarrow> exn + document list"
  faiss_load_local :: "string \<Rightarrow> string \<Rightarrow> world \<Rightarrow> exn + faiss"
  faiss_from_texts :: "string list \<Rightarrow> pydict list \<Rightarrow> exn + faiss"
  faiss_save_local :: "faiss \<Rightarrow> string \<Rightarrow> world \<Rightarrow> exn + world"
  faiss_add_documents :: "faiss \<Rightarrow> document list \<Rightarrow> exn + faiss"
  faiss_as_retriever :: "faiss \<Rightarrow> string \<Rightarrow> (string \<rightharpoonup> kwval) \<Rightarrow> exn + retriever"
  faiss_private_as_retriever :: "faiss \<Rightarrow> string \<Rightarrow> (string \<rightharpoonup> kwval) \<Rightarrow> exn + retriever"
  json_loads :: "string \<Rightarrow> exn + meta option"
  json_dumps :: "meta \<Rightarrow> string"
  new_ModelLoader :: "world \<Rightarrow> model_loader res"
  lcel_chain :: "retriever \<Rightarrow> exn + chain"

text \<open>The loop of \<open>load_documents\<close>; the loader is chosen by the lower-cased suffix.\<close>

fun load_loop :: "env \<Rightarrow> string list \<Rightarrow> document list \<Rightarrow> world \<Rightarrow> document list res" where
  "load_loop E [] docs w = (Inr docs, w)"
| "load_loop E (p # ps) docs w =
     (let ext = py_lower (path_suffix p)
      in if ext = ''.pdf'' \<or> ext = ''.docx'' \<or> ext = ''.txt''
         then (case doc_loader E ext p w of
                 Inl e \<Rightarrow> (Inl e, w)
               | Inr ds \<Rightarrow> load_loop E ps (docs @ ds) w)
         else (case log_call ''warning'' [Txt (''Unsupported extension skipped '' @ p)] w of
                 (Inl e, w') \<Rightarrow> (Inl e, w')
               | (Inr u, w') \<Rightarrow> load_loop E ps docs w'))"

text \<open>
  \<^verbatim>\<open>load_documents(paths)\<close>: iterating \<open>None\<close> is a \<open>TypeError\<close>; every failure is
  logged and wrapped. This body, too, ends without a \<open>return\<close>.
\<close>

definition load_documents :: "env \<Rightarrow> string list option \<Rightarrow> world \<Rightarrow> document list option res" where
  "load_documents E paths w =
     (let r = (case paths of
                 None \<Rightarrow> (Inl (Exn TypeError (Msg (apos @ ''NoneType'' @ apos @ '' object is not iterable'')) None), w)
               | Some ps \<Rightarrow>
                   (case load_loop E ps [] w of
                      (Inl e, w') \<Rightarrow> (Inl e, w')
                    | (Inr docs, w') \<Rightarrow>
                        (case log_call ''info''
                                [Txt (dec_nat (length docs) @ '' Documents loaded'')] w' of
                           (Inl e, w'') \<Rightarrow> (Inl e, w'')
                         | (Inr u, w'') \<Rightarrow> (Inr docs, w''))))
      in case r of
           (Inr docs, w') \<Rightarrow> (Inr None, w')
         | (Inl e, w') \<Rightarrow>
             (case log_call ''error'' [Txt ''Failed loading documents '', ExnStr e] w' of
                (Inl e', w'') \<Rightarrow> (Inl e', w'')
              | (Inr u, w'') \<Rightarrow> (Inl (ProjectException_new (Err e) (Some e)), w'')))"

subsection \<open>Sequencing and the \<open>except Exception\<close> wrappers\<close>

definition bind_res :: "'a res \<Rightarrow> ('a \<Rightarrow> world \<Rightarrow> 'b res) \<Rightarrow> 'b res" where
  "bind_res r f = (case r of (Inl e, w) \<Rightarrow> (Inl e, w) | (Inr a, w) \<Rightarrow> f a w)"

text \<open>
  \<^verbatim>\<open>except Exception as e: log.error(msg); raise ProjectException(a, sys)\<close>: the new
  exception is raised while \<open>e\<close> is handled.
\<close>

definition except_wrap :: "(exn \<Rightarrow> frag list) \<Rightarrow> (exn \<Rightarrow> exn_arg) \<Rightarrow> 'a res \<Rightarrow> 'a res" where
  "except_wrap msg a r =
     (case r of
        (Inr x, w) \<Rightarrow> (Inr x, w)
      | (Inl e, w) \<Rightarrow>
          bind_res (log_call ''error'' (msg e) w)
            (\<lambda>u w'. (Inl (ProjectException_new (a e) (Some e)), w')))"

text \<open>An exception raised while \<open>h\<close> is being handled gets \<open>h\<close> as its context.\<close>

definition with_context :: "exn \<Rightarrow> exn \<Rightarrow> exn" where
  "with_context h e = (case e of Exn c a None \<Rightarrow> Exn c a (Some h) | Exn c a (Some x) \<Rightarrow> e)"

section \<open>\<open>FaissManager\<close>: the index manager\<close>

text \<open>
  The attributes \<open>__init__\<close> assigns: \<open>index_dir\<close>, \<open>meta_path\<close>, \<open>_meta\<close>,
  \<open>medel_loader\<close> (so spelled) and \<open>vs\<close>. \<open>emb\<close> is computed from
  \<open>self.model_loader\<close>, an attribute that is never assigned.
\<close>

record faiss_manager =
  index_dir :: string
  meta_path :: string
  fm_meta :: meta
  medel_loader :: "model_loader option"
  vs :: "faiss option"

definition empty_rows :: meta where
  "empty_rows = [''rows'' \<mapsto> Map.empty]"

text \<open>
  \<^verbatim>\<open>FaissManager.__init__(index_dir, model_loader)\<close>. Line 141 reads
  \<open>self.model_loader\<close>, which no line assigns: \<open>AttributeError\<close>.
\<close>

definition FaissManager_init :: "env \<Rightarrow> string \<Rightarrow> model_loader option \<Rightarrow> world \<Rightarrow> faiss_manager res" where
  "FaissManager_init E dir ml w =
     (let w1 = mkdir dir w;
          mp = path_join dir ''ingested_meta.json'';
          m = (if path_exists w1 mp
               then (case files w1 mp of
                       None \<Rightarrow> empty_rows
                     | Some txt \<Rightarrow>
                         (case json_loads E txt of
                            Inl e \<Rightarrow> empty_rows
                          | Inr None \<Rightarrow> empty_rows
                          | Inr (Some j) \<Rightarrow> j))
               else empty_rows)
      in bind_res (case ml of Some l \<Rightarrow> (Inr l, w1) | None \<Rightarrow> new_ModelLoader E w1)
           (\<lambda>l w2.
              (Inl (Exn AttributeError
                      (Msg (apos @ ''FaissManager'' @ apos @ '' object has no attribute ''
                            @ apos @ ''model_loader'' @ apos)) None), w2)))"

text \<open>\<^verbatim>\<open>_exists\<close>: both artifact files are present.\<close>

definition exists_index :: "faiss_manager \<Rightarrow> world \<Rightarrow> bool" where
  "exists_index fm w =
     (path_exists w (path_join (index_dir fm) ''index.faiss'')
      \<and> path_exists w (path_join (index_dir fm) ''index.pkl''))"

definition save_meta :: "env \<Rightarrow> faiss_manager \<Rightarrow> world \<Rightarrow> world" where
  "save_meta E fm w = w\<lparr>files := (files w)(meta_path fm \<mapsto> json_dumps E (fm_meta fm))\<rparr>"

text \<open>\<open>x in None\<close>: \<open>None\<close> is no container, whatever \<open>x\<close> is.\<close>

definition py_in_None :: "'a \<Rightarrow> exn + bool" where
  "py_in_None x =
     Inl (Exn TypeError
            (Msg (''argument of type '' @ apos @ ''NoneType'' @ apos @ '' is not iterable'')) None)"

text \<open>
  \<^verbatim>\<open>new_docs = List[Document] = []\<close> assigns to the subscription
  \<open>List[Document]\<close> of \<open>typing.List\<close>, which has no item assignment.
\<close>

definition typing_List_setitem :: "exn + unit" where
  "typing_List_setitem =
     Inl (Exn TypeError
            (Msg (apos @ ''_SpecialGenericAlias'' @ apos
                  @ '' object does not support item assignment'')) None)"

text \<open>The loop of \<open>add_documents\<close>; the ledger is looked up under \<open>"raws"\<close>.\<close>

fun add_loop :: "document list \<Rightarrow> meta \<Rightarrow> document list \<Rightarrow> exn + meta \<times> document list" where
  "add_loop [] m new_docs = Inr (m, new_docs)"
| "add_loop (d # ds) m new_docs =
     (let key = fingerprint (page_content d) (metadata d)
      in case m ''raws'' of
           None \<Rightarrow> Inl (Exn KeyError (Msg ''raws'') None)
         | Some led \<Rightarrow>
             (if led key \<noteq> None then add_loop ds m new_docs
              else add_loop ds (m(''raws'' \<mapsto> led(key \<mapsto> True))) (new_docs @ [d])))"

text \<open>\<^verbatim>\<open>FaissManager.add_documents(docs)\<close>, lines 164 to 187.\<close>

definition add_documents :: "env \<Rightarrow> faiss_manager \<Rightarrow> document list \<Rightarrow> world \<Rightarrow> (exn + nat) \<times> faiss_manager \<times> world" where
  "add_documents E fm docs w =
     (case py_in_None (vs fm) of
        Inl e \<Rightarrow> (Inl e, fm, w)
      | Inr b \<Rightarrow>
          (if b
           then (Inl (Exn RuntimeError
                        (Msg ''Call load_or_create() before add_documents_idempotent().'') None),
                 fm, w)
           else
             (case typing_List_setitem of
                Inl e \<Rightarrow> (Inl e, fm, w)
              | Inr u \<Rightarrow>
                  (case add_loop docs (fm_meta fm) [] of
                     Inl e \<Rightarrow> (Inl e, fm, w)
                   | Inr (m, new_docs) \<Rightarrow>
                       (let fm1 = fm\<lparr>fm_meta := m\<rparr>
                        in if new_docs = [] then (Inr 0, fm1, w)
                           else
                             (case vs fm1 of
                                None \<Rightarrow>
                                  (Inl (Exn AttributeError
                                          (Msg (apos @ ''NoneType'' @ apos
                                                @ '' object has no attribute '' @ apos
                                                @ ''add_documents'' @ apos)) None), fm1, w)
                              | Some ix \<Rightarrow>
                                  (case faiss_add_documents E ix new_docs of
                                     Inl e \<Rightarrow> (Inl e, fm1, w)
                                   | Inr ix' \<Rightarrow>
                                       (let fm2 = fm1\<lparr>vs := Some ix'\<rparr>
                                        in case faiss_save_local E ix' (index_dir fm2) w of
                                             Inl e \<Rightarrow> (Inl e, fm2, w)
                                           | Inr w' \<Rightarrow>
                                               (Inr (length new_docs), fm2,
                                                save_meta E fm2 w')))))))))"

text \<open>\<^verbatim>\<open>FaissManager.load_or_create(texts, metadatas)\<close>, lines 190 to 203.\<close>

definition load_or_create :: "env \<Rightarrow> faiss_manager \<Rightarrow> string list option \<Rightarrow> pydict list option \<Rightarrow> world \<Rightarrow> (exn + faiss) \<times> faiss_manager \<times> world" where
  "load_or_create E fm texts metadatas w =
     (if exists_index fm w
      then (case faiss_load_local E (index_dir fm) ''index'' w of
              Inl e \<Rightarrow> (Inl e, fm, w)
            | Inr ix \<Rightarrow> (Inr ix, fm\<lparr>vs := Some ix\<rparr>, w))
      else
        (case texts of
           None \<Rightarrow>
             (Inl (ProjectException_new
                     (Msg ''No existing FAISS index and no data to create one'') None), fm, w)
         | Some [] \<Rightarrow>
             (Inl (ProjectException_new
                     (Msg ''No existing FAISS index and no data to create one'') None), fm, w)
         | Some (t # ts) \<Rightarrow>
             (case faiss_from_texts E (t # ts) (case metadatas of None \<Rightarrow> [] | Some ms \<Rightarrow> ms) of
                Inl e \<Rightarrow> (Inl e, fm, w)
              | Inr ix \<Rightarrow>
                  (let fm1 = fm\<lparr>vs := Some ix\<rparr>
                   in case faiss_save_local E ix (index_dir fm1) w of
                        Inl e \<Rightarrow> (Inl e, fm1, w)
                      | Inr w' \<Rightarrow> (Inr ix, fm1, w')))))"

section \<open>\<open>ChatIngestor\<close>: the ingestion orchestrator\<close>

record chat_ingestor =
  ci_model_loader :: model_loader
  ci_session_id :: string
  temp_dir :: string
  faiss_dir :: string

text \<open>\<^verbatim>\<open>_split(docs)\<close>, which \<open>build_retriver\<close> calls with the default sizes 1000 and 200.\<close>

definition split_docs :: "env \<Rightarrow> document list option \<Rightarrow> world \<Rightarrow> document list res" where
  "split_docs E docs w =
     (case split_documents E docs of
        Inl e \<Rightarrow> (Inl e, w)
      | Inr chunks \<Rightarrow>
          bind_res (log_call ''info''
                      [Txt (''Documents split, chunks='' @ dec_nat (length chunks)
                            @ '', chunk_size=1000, overlap=200'')] w)
            (\<lambda>u w'. (Inr chunks, w')))"

text \<open>Lines 106 to 111 of \<open>build_retriver\<close>.\<close>

definition build_search_kwargs :: "int \<Rightarrow> string \<Rightarrow> int \<Rightarrow> real \<Rightarrow> (string \<rightharpoonup> kwval)" where
  "build_search_kwargs k search_type fetch_k lambda_mult =
     (let kw = [''k'' \<mapsto> KInt k]
      in if search_type = ''mmr''
         then kw(''fetch_k'' \<mapsto> KInt fetch_k, ''lambda_mult'' \<mapsto> KFloat lambda_mult)
         else kw)"

text \<open>Lines 93 to 115: the manager, the index, the retriever.\<close>

definition index_and_retrieve :: "env \<Rightarrow> chat_ingestor \<Rightarrow> document list \<Rightarrow> int \<Rightarrow> string \<Rightarrow> int \<Rightarrow> real \<Rightarrow> world \<Rightarrow> retriever res" where
  "index_and_retrieve E self chunks k search_type fetch_k lambda_mult w =
     bind_res (FaissManager_init E (faiss_dir self) (Some (ci_model_loader self)) w)
       (\<lambda>fm w1.
          let texts = Some (map page_content chunks);
              metas = Some (map metadata chunks);
              (r1, fm1, w2) = load_or_create E fm texts metas w1;
              (r2, fm2, w3) =
                 (case r1 of
                    Inr ix \<Rightarrow> (Inr ix, fm1, w2)
                  | Inl e \<Rightarrow>
                      (case load_or_create E fm1 texts metas w2 of
                         (Inl e', fm', w') \<Rightarrow> (Inl (with_context e e'), fm', w')
                       | (Inr ix, fm', w') \<Rightarrow> (Inr ix, fm', w')))
          in case r2 of
               Inl e \<Rightarrow> (Inl e, w3)
             | Inr ix \<Rightarrow>
                 (case add_documents E fm2 chunks w3 of
                    (Inl e, fm3, w4) \<Rightarrow> (Inl e, w4)
                  | (Inr added, fm3, w4) \<Rightarrow>
                      bind_res (log_call ''info''
                                  [Txt (''FAISS index updated '' @ faiss_dir self)] w4)
                        (\<lambda>u w5.
                           bind_res (if search_type = ''mmr''
                                     then log_call ''info'' [Txt ''Using MMR search''] w5
                                     else (Inr (), w5))
                             (\<lambda>u w6.
                                (faiss_private_as_retriever E ix search_type
                                   (build_search_kwargs k search_type fetch_k lambda_mult),
                                 w6)))))"

text \<open>\<^verbatim>\<open>ChatIngestor.build_retriver(uploaded_file, k, search_type, fetch_k, lambda_mult)\<close>\<close>

definition build_retriver :: "env \<Rightarrow> chat_ingestor \<Rightarrow> upload list \<Rightarrow> int \<Rightarrow> string \<Rightarrow> int \<Rightarrow> real \<Rightarrow> world \<Rightarrow> retriever res" where
  "build_retriver E self uploaded_file k search_type fetch_k lambda_mult w =
     except_wrap (\<lambda>e. [Txt ''Faild to build retriver '', ExnStr e]) Err
       (bind_res (save_uploaded_files uploaded_file (temp_dir self) w)
          (\<lambda>paths w1.
             bind_res (load_documents E paths w1)
               (\<lambda>docs w2.
                  bind_res (split_docs E docs w2)
                    (\<lambda>chunks w3.
                       index_and_retrieve E self chunks k search_type fetch_k lambda_mult w3))))"

section \<open>\<open>ConversationalRAG\<close>: the conversational chain\<close>

record rag =
  session_id :: "string option"
  rag_retriever :: "retriever option"
  rag_chain :: "chain option"

definition opt_str :: "string option \<Rightarrow> string" where
  "opt_str s = (case s of None \<Rightarrow> ''None'' | Some x \<Rightarrow> x)"

text \<open>\<^verbatim>\<open>_build_lcel_chain\<close>: the composition itself is LangChain's.\<close>

definition build_lcel_chain :: "env \<Rightarrow> rag \<Rightarrow> world \<Rightarrow> (exn + unit) \<times> rag \<times> world" where
  "build_lcel_chain E self w =
     (let (r, self1, w1) =
           (case rag_retriever self of
              None \<Rightarrow>
                (Inl (ProjectException_new (Msg ''No retriever set before building chain'') None),
                 self, w)
            | Some rt \<Rightarrow>
                (case lcel_chain E rt of
                   Inl e \<Rightarrow> (Inl e, self, w)
                 | Inr c \<Rightarrow>
                     (case log_call ''info''
                             [Txt (''LCEL graph built successfully, session_id=''
                                   @ opt_str (session_id self))] w of
                        (r', w') \<Rightarrow> (r', self\<lparr>rag_chain := Some c\<rparr>, w'))))
      in case except_wrap
                (\<lambda>e. [Txt ''Failed to build LCEL chain, error={e}, session_id={self.session_id}''])
                (\<lambda>e. Msg ''Failed to build LCEL chain'') (r, w1) of
           (r', w2) \<Rightarrow> (r', self1, w2))"

text \<open>Lines 82 to 86 of \<open>load_retriever_from_faiss\<close>. The test on line 84 compares the
  dictionary \<open>search_kwargs\<close> with the string \<open>"mmr"\<close>; a \<open>dict\<close> never equals a \<open>str\<close>.\<close>

definition dict_eq_str :: "(string \<rightharpoonup> kwval) \<Rightarrow> string \<Rightarrow> bool" where
  "dict_eq_str d s = False"

definition load_search_kwargs :: "(string \<rightharpoonup> kwval) option \<Rightarrow> int \<Rightarrow> int \<Rightarrow> real \<Rightarrow> (string \<rightharpoonup> kwval)" where
  "load_search_kwargs search_kwargs k fetch_k lambda_mult =
     (case search_kwargs of
        Some kw \<Rightarrow> kw
      | None \<Rightarrow>
          (let kw = [''k'' \<mapsto> KInt k]
           in if dict_eq_str kw ''mmr''
              then kw(''fetch_k'' \<mapsto> KInt fetch_k, ''lambda_mult'' \<mapsto> KFloat lambda_mult)
              else kw))"

text \<open>\<^verbatim>\<open>ConversationalRAG.load_retriever_from_faiss\<close>, lines 47 to 109. The text of
  the closing \<open>log.info\<close> entry is shortened to its first fields.\<close>

definition load_retriever_from_faiss :: "env \<Rightarrow> rag \<Rightarrow> string \<Rightarrow> int \<Rightarrow> string \<Rightarrow> string \<Rightarrow> int \<Rightarrow> real \<Rightarrow> (string \<rightharpoonup> kwval) option \<Rightarrow> world \<Rightarrow> (exn + retriever) \<times> rag \<times> world" where
  "load_retriever_from_faiss E self index_path k index_name search_type fetch_k lambda_mult
      search_kwargs w =
     (let (r, self1, w1) =
           (if index_path \<notin> dirs w
            then (Inl (Exn FileNotFoundError
                         (Msg (''FAISS index directory not found: '' @ index_path)) None),
                  self, w)
            else
              (case new_ModelLoader E w of
                 (Inl e, w') \<Rightarrow> (Inl e, self, w')
               | (Inr l, w') \<Rightarrow>
                   (case faiss_load_local E index_path index_name w' of
                      Inl e \<Rightarrow> (Inl e, self, w')
                    | Inr vectorstore \<Rightarrow>
                        (case faiss_as_retriever E vectorstore search_type
                                (load_search_kwargs search_kwargs k fetch_k lambda_mult) of
                           Inl e \<Rightarrow> (Inl e, self, w')
                         | Inr rt \<Rightarrow>
                             (case build_lcel_chain E (self\<lparr>rag_retriever := Some rt\<rparr>) w' of
                                (Inl e, self', w'') \<Rightarrow> (Inl e, self', w'')
                              | (Inr u, self', w'') \<Rightarrow>
                                  (case log_call ''info''
                                          [Txt (''FAISS retriever loaded successfully, index_path=''
                                                @ index_path @ '', search_type='' @ search_type)]
                                          w'' of
                                     (Inl e, w3) \<Rightarrow> (Inl e, self', w3)
                                   | (Inr u', w3) \<Rightarrow> (Inr rt, self', w3)))))))
      in case except_wrap (\<lambda>e. [Txt ''Failed to load retriever from FAISS '', ExnStr e]) Err
                (r, w1) of
           (r', w2) \<Rightarrow> (r', self1, w2))"

text \<open>\<^verbatim>\<open>ChatAnswer(answer=...)\<close>: \<open>Field(min_length=1, max_length=4096)\<close>.\<close>

definition ChatAnswer_validate :: "string \<Rightarrow> exn + string" where
  "ChatAnswer_validate s =
     (if length s < 1
      then Inl (Exn ValidationError (Msg ''String should have at least 1 character'') None)
      else if 4096 < length s
      then Inl (Exn ValidationError (Msg ''String should have at most 4096 characters'') None)
      else Inr s)"

text \<open>\<^verbatim>\<open>ConversationalRAG.invoke(user_input, chat_history)\<close>, lines 112 to 143. The
  text of the closing \<open>log.info\<close> entry, a plain string, is shortened to its first line.\<close>

definition invoke :: "rag \<Rightarrow> string \<Rightarrow> string list option \<Rightarrow> world \<Rightarrow> string res" where
  "invoke self user_input chat_history w =
     except_wrap (\<lambda>e. [Txt ''Failed to invoke ConversationalRAG '', ExnStr e])
       (\<lambda>e. Msg ''Invocation error in ConversationalRAG'')
       (case rag_chain self of
          None \<Rightarrow>
            (Inl (ProjectException_new
                    (Msg ''RAG chain not initialized. Call load_retriever_from_faiss() before invoke().'')
                    None), w)
        | Some c \<Rightarrow>
            (case c \<lparr>p_input = user_input,
                     p_chat_history = (case chat_history of None \<Rightarrow> [] | Some h \<Rightarrow> h)\<rparr> of
               Inl e \<Rightarrow> (Inl e, w)
             | Inr answer \<Rightarrow>
                 (if \<not> truthy answer
                  then bind_res (log_call ''warning''
                                   [Txt (''No answer generated, user_input='' @ user_input
                                         @ '', session_id='' @ opt_str (session_id self))] w)
                         (\<lambda>u w'. (Inr ''No answer generated.'', w'))
                  else
                    (case ChatAnswer_validate (py_str answer) of
                       Inl ve \<Rightarrow>
                         bind_res (log_call ''error'' [Txt ''Invalid chat answer '', ExnStr ve] w)
                           (\<lambda>u w'. (Inl (ProjectException_new (Err ve) (Some ve)), w'))
                     | Inr a \<Rightarrow>
                         bind_res (log_call ''info'' [Txt ''Chain invoked successfully''] w)
                           (\<lambda>u w'. (Inr a, w'))))))"

section \<open>Predicates of the statements and a small instance to run the model\<close>

text \<open>An upload whose extension is on the allow-list, and one that offers some reader.\<close>

definition upload_supported :: "upload \<Rightarrow> bool" where
  "upload_supported uf = (py_lower (path_suffix (upload_name uf)) \<in> set SUPPORTED_EXTENSIONS_io)"

definition upload_readable :: "upload \<Rightarrow> bool" where
  "upload_readable uf = (case upload_bytes uf of Inl e \<Rightarrow> False | Inr b \<Rightarrow> True)"

text \<open>
  A toy instance of the collaborators: an index is the list of its documents, their
  texts stored one per line in \<open>index.pkl\<close>; the chain echoes its input. As LangChain's
  \<open>FAISS.from_texts\<close> does, \<open>toy_from_texts\<close> refuses a list of metadatas whose length is
  not that of the texts with a \<open>ValueError\<close>.
\<close>

definition mk_doc :: "string \<Rightarrow> document" where
  "mk_doc t = \<lparr>page_content = t, metadata = Map.empty\<rparr>"

fun join_lines :: "string list \<Rightarrow> string" where
  "join_lines [] = []"
| "join_lines [x] = x"
| "join_lines (x # y # ys) = x @ [CHR 0x0A] @ join_lines (y # ys)"

definition toy_from_texts :: "string list \<Rightarrow> pydict list \<Rightarrow> exn + faiss" where
  "toy_from_texts ts ms =
     (if length ts \<noteq> length ms
      then Inl (Exn ValueError
                  (Msg (''texts and metadatas expected to be equal length but len(texts)=''
                        @ dec_nat (length ts) @ '' and len(metadatas)='' @ dec_nat (length ms)))
                  None)
      else Inr (Faiss (map2 (\<lambda>t m. \<lparr>page_content = t, metadata = m\<rparr>) ts ms)))"

definition toy_save_local :: "faiss \<Rightarrow> string \<Rightarrow> world \<Rightarrow> exn + world" where
  "toy_save_local ix dir w =
     Inr (w\<lparr>files := (files w)
            (path_join dir ''index.faiss'' \<mapsto> ''faiss'',
             path_join dir ''index.pkl'' \<mapsto> join_lines (map page_content (docstore ix)))\<rparr>)"

definition toy_load_local :: "string \<Rightarrow> string \<Rightarrow> world \<Rightarrow> exn + faiss" where
  "toy_load_local dir name w =
     (case files w (path_join dir (name @ ''.pkl'')) of
        None \<Rightarrow> Inl (Exn LibraryError (Msg ''could not open the index'') None)
      | Some b \<Rightarrow> Inr (Faiss (map mk_doc (split_on (CHR 0x0A) b))))"

definition toy_env :: env where
  "toy_env =
     \<lparr>doc_loader = (\<lambda>ext p w. case files w p of
                       None \<Rightarrow> Inl (Exn LibraryError (Msg ''no such file'') None)
                     | Some b \<Rightarrow> Inr [\<lparr>page_content = b, metadata = [''source'' \<mapsto> PStr p]\<rparr>]),
      split_documents = (\<lambda>docs. case docs of
                       None \<Rightarrow> Inl (Exn TypeError (Msg ''documents expected'') None)
                     | Some ds \<Rightarrow> Inr ds),
      faiss_load_local = toy_load_local,
      faiss_from_texts = toy_from_texts,
      faiss_save_local = toy_save_local,
      faiss_add_documents = (\<lambda>ix ds. Inr (Faiss (docstore ix @ ds))),
      faiss_as_retriever = (\<lambda>ix st kw.
                       Inr \<lparr>r_index = ix, r_search_type = st, r_search_kwargs = kw\<rparr>),
      faiss_private_as_retriever = (\<lambda>ix st kw.
                       Inr \<lparr>r_index = ix, r_search_type = st, r_search_kwargs = kw\<rparr>),
      json_loads = (\<lambda>s. Inr None),
      json_dumps = (\<lambda>m. ''{}''),
      new_ModelLoader = (\<lambda>w. (Inr ModelLoader, w)),
      lcel_chain = (\<lambda>rt. Inr (\<lambda>p. Inr (PStr (p_input p))))\<rparr>"

definition toy_world :: world where
  "toy_world =
     \<lparr>files = Map.empty, dirs = {}, logs = [],
      rand = (\<lambda>n. ''0123456789abcdef0123456789abcdef''), nrand = 0\<rparr>"


definition toy_rag :: rag where
  "toy_rag = \<lparr>session_id = Some ''s1'', rag_retriever = None, rag_chain = None\<rparr>"

definition toy_ingestor :: chat_ingestor where
  "toy_ingestor =
     \<lparr>ci_model_loader = ModelLoader, ci_session_id = ''s1'', temp_dir = ''data/s1'',
      faiss_dir = ''faiss_index/s1''\<rparr>"

definition toy_upload :: "string \<Rightarrow> string \<Rightarrow> upload" where
  "toy_upload n b =
     \<lparr>filename_attr = Some n, name_attr = None, file_read = Some b, read_attr = None,
      getbuffer_attr = None\<rparr>"

section \<open>Fingerprints\<close>

lemma length_list_of_regs: "length (list_of_regs r) = 8"
  by (cases r rule: list_of_regs.cases) simp

lemma length_compress: "length hs = 8 \<Longrightarrow> length (compress hs blk) = 8"
  by (simp add: compress_def length_list_of_regs)

lemma length_foldl_compress: "length hs = 8 \<Longrightarrow> length (foldl compress hs bs) = 8"
  by (induction bs arbitrary: hs) (simp_all add: length_compress)

lemma length_sha256: "length (sha256 bs) = 8"
  unfolding sha256_def by (rule length_foldl_compress) (simp add: H256_def)

lemma length_hex32: "length (hex32 w) = 8"
  by (simp add: hex32_def)

lemma length_hexdigest: "length (hexdigest ws) = 8 * length ws"
  by (induction ws) (simp_all add: hexdigest_def length_hex32)

lemma length_sha256_hexdigest: "length (sha256_hexdigest tx) = 64"
  by (simp add: sha256_hexdigest_def length_hexdigest length_sha256)

lemma fingerprint_truthy_source:
  "truthy (dict_get md ''source'') \<Longrightarrow>
     fingerprint tx md = py_str (dict_get md ''source'') @ ''::'' @ rid_str md"
  by (cases "dict_get md ''source''"; cases "dict_get md ''raw_id''")
     (simp_all add: fingerprint_def py_or_def rid_str_def Let_def)

lemma fingerprint_file_path:
  "\<not> truthy (dict_get md ''source'') \<Longrightarrow> dict_get md ''file_path'' \<noteq> PNone \<Longrightarrow>
     fingerprint tx md = py_str (dict_get md ''file_path'') @ ''::'' @ rid_str md"
  by (cases "dict_get md ''raw_id''")
     (simp_all add: fingerprint_def py_or_def rid_str_def Let_def)

lemma fingerprint_hash:
  "\<not> truthy (dict_get md ''source'') \<Longrightarrow> dict_get md ''file_path'' = PNone \<Longrightarrow>
     fingerprint tx md = sha256_hexdigest tx"
  by (simp add: fingerprint_def py_or_def Let_def)

text \<open>
  C4, as amended. The source value counts only when it is truthy: a fingerprint is
  \<open>str(source) + "::" + raw_id\<close> for a truthy \<open>source\<close>, \<open>str(file_path) + "::" + raw_id\<close>
  for a falsy or missing \<open>source\<close> and a \<open>file_path\<close> other than \<open>None\<close>, and the SHA-256 hex
  digest of the tx otherwise (\<open>raw_id\<close> rendered empty when missing). Equal inputs
  give equal fingerprints, and two chunks with the same tx and the same \<open>raw_id\<close> whose
  sources are different non-empty strings get different fingerprints.
\<close>

theorem fingerprint_amended:
  "(truthy (dict_get md ''source'') \<longrightarrow>
      fingerprint tx md = py_str (dict_get md ''source'') @ ''::'' @ rid_str md)
   \<and> (\<not> truthy (dict_get md ''source'') \<and> dict_get md ''file_path'' \<noteq> PNone \<longrightarrow>
      fingerprint tx md = py_str (dict_get md ''file_path'') @ ''::'' @ rid_str md)
   \<and> (\<not> truthy (dict_get md ''source'') \<and> dict_get md ''file_path'' = PNone \<longrightarrow>
      fingerprint tx md = sha256_hexdigest tx)
   \<and> (tx = ty \<and> md = mdy \<longrightarrow> fingerprint tx md = fingerprint ty mdy)
   \<and> (md ''source'' = Some (PStr s) \<and> mdb ''source'' = Some (PStr sb) \<and> s \<noteq> [] \<and> sb \<noteq> []
        \<and> s \<noteq> sb \<and> dict_get md ''raw_id'' = dict_get mdb ''raw_id'' \<longrightarrow>
      fingerprint tx md \<noteq> fingerprint tx mdb)"
proof (intro conjI impI)
  assume "truthy (dict_get md ''source'')"
  then show "fingerprint tx md = py_str (dict_get md ''source'') @ ''::'' @ rid_str md"
    by (rule fingerprint_truthy_source)
next
  assume "\<not> truthy (dict_get md ''source'') \<and> dict_get md ''file_path'' \<noteq> PNone"
  then show "fingerprint tx md = py_str (dict_get md ''file_path'') @ ''::'' @ rid_str md"
    by (simp add: fingerprint_file_path)
next
  assume "\<not> truthy (dict_get md ''source'') \<and> dict_get md ''file_path'' = PNone"
  then show "fingerprint tx md = sha256_hexdigest tx"
    by (simp add: fingerprint_hash)
next
  assume "tx = ty \<and> md = mdy"
  then show "fingerprint tx md = fingerprint ty mdy" by simp
next
  assume a: "md ''source'' = Some (PStr s) \<and> mdb ''source'' = Some (PStr sb) \<and> s \<noteq> [] \<and> sb \<noteq> []
        \<and> s \<noteq> sb \<and> dict_get md ''raw_id'' = dict_get mdb ''raw_id''"
  then have t1: "truthy (dict_get md ''source'')" and t2: "truthy (dict_get mdb ''source'')"
    by (simp_all add: dict_get_def)
  from a have r: "rid_str md = rid_str mdb" by (simp add: rid_str_def)
  have "fingerprint tx md = s @ ''::'' @ rid_str md"
    using fingerprint_truthy_source [OF t1, of tx] a by (simp add: dict_get_def)
  moreover have "fingerprint tx mdb = sb @ ''::'' @ rid_str md"
    using fingerprint_truthy_source [OF t2, of tx] a r by (simp add: dict_get_def)
  ultimately show "fingerprint tx md \<noteq> fingerprint tx mdb"
    using a by simp
qed

theorem fingerprint_amended_witness:
  "fingerprint ''Hello World'' [''source'' \<mapsto> PStr ''fake.txt''] = ''fake.txt::''
   \<and> fingerprint ''Hello World'' [''file_path'' \<mapsto> PStr ''a.csv'', ''raw_id'' \<mapsto> PInt 7] = ''a.csv::7''
   \<and> fingerprint ''Hello World'' Map.empty = sha256_hexdigest ''Hello World''
   \<and> fingerprint ''Hello World'' [''source'' \<mapsto> PStr ''fake.txt'']
       \<noteq> fingerprint ''Hello World'' [''source'' \<mapsto> PStr ''other.txt'']"
proof -
  have d7: "dec_int 7 = ''7''"
    by (simp add: dec_int_def digit_char_def)
  have a: "fingerprint ''Hello World'' [''source'' \<mapsto> PStr ''fake.txt''] = ''fake.txt::''"
    using fingerprint_amended
      [where md = "[''source'' \<mapsto> PStr ''fake.txt'']" and tx = "''Hello World''"
         and ty = "''Hello World''" and mdy = "[''source'' \<mapsto> PStr ''fake.txt'']"
         and s = "''fake.txt''" and mdb = "[''source'' \<mapsto> PStr ''other.txt'']"
         and sb = "''other.txt''"]
    by (simp add: dict_get_def rid_str_def)
  have b: "fingerprint ''Hello World'' [''file_path'' \<mapsto> PStr ''a.csv'', ''raw_id'' \<mapsto> PInt 7] = ''a.csv::7''"
    using fingerprint_amended
      [where md = "[''file_path'' \<mapsto> PStr ''a.csv'', ''raw_id'' \<mapsto> PInt 7]"
         and tx = "''Hello World''" and ty = "''Hello World''"
         and mdy = "[''file_path'' \<mapsto> PStr ''a.csv'', ''raw_id'' \<mapsto> PInt 7]"
         and s = "''fake.txt''" and mdb = "[''source'' \<mapsto> PStr ''other.txt'']"
         and sb = "''other.txt''"]
    by (simp add: dict_get_def rid_str_def d7)
  have c: "fingerprint ''Hello World'' Map.empty = sha256_hexdigest ''Hello World''"
    using fingerprint_amended
      [where md = Map.empty and tx = "''Hello World''" and ty = "''Hello World''"
         and mdy = Map.empty and s = "''fake.txt''"
         and mdb = "[''source'' \<mapsto> PStr ''other.txt'']" and sb = "''other.txt''"]
    by (simp add: dict_get_def)
  have d: "fingerprint ''Hello World'' [''source'' \<mapsto> PStr ''fake.txt'']
       \<noteq> fingerprint ''Hello World'' [''source'' \<mapsto> PStr ''other.txt'']"
    using fingerprint_amended
      [where md = "[''source'' \<mapsto> PStr ''fake.txt'']" and tx = "''Hello World''"
         and ty = "''Hello World''" and mdy = "[''source'' \<mapsto> PStr ''fake.txt'']"
         and s = "''fake.txt''" and mdb = "[''source'' \<mapsto> PStr ''other.txt'']"
         and sb = "''other.txt''"]
    by (auto simp: dict_get_def rid_str_def)
  from a b c d show ?thesis by simp
qed

text \<open>
  C4 as stated fails for an empty \<open>source\<close>: the metadata carries a source, yet the
  fingerprint is the 64-character digest and not \<open>"" + "::" + ""\<close>; and with a
  \<open>file_path\<close> beside it, the empty source and the source \<open>a.txt\<close> get one fingerprint.
\<close>

theorem fingerprint_empty_source_counterexample:
  "[''source'' \<mapsto> PStr ''''] ''source'' \<noteq> None
   \<and> fingerprint ''Hello World'' [''source'' \<mapsto> PStr ''''] \<noteq> '''' @ ''::'' @ ''''
   \<and> PStr '''' \<noteq> PStr ''a.txt''
   \<and> fingerprint ''Hello World'' [''source'' \<mapsto> PStr '''', ''file_path'' \<mapsto> PStr ''a.txt'']
       = fingerprint ''Hello World'' [''source'' \<mapsto> PStr ''a.txt'', ''file_path'' \<mapsto> PStr ''a.txt'']"
proof -
  have "fingerprint ''Hello World'' [''source'' \<mapsto> PStr ''''] = sha256_hexdigest ''Hello World''"
    by (simp add: fingerprint_def py_or_def dict_get_def)
  then have "length (fingerprint ''Hello World'' [''source'' \<mapsto> PStr '''']) = 64"
    by (simp add: length_sha256_hexdigest)
  then have a: "fingerprint ''Hello World'' [''source'' \<mapsto> PStr ''''] \<noteq> '''' @ ''::'' @ ''''"
    by auto
  have b: "fingerprint ''Hello World'' [''source'' \<mapsto> PStr '''', ''file_path'' \<mapsto> PStr ''a.txt'']
       = fingerprint ''Hello World'' [''source'' \<mapsto> PStr ''a.txt'', ''file_path'' \<mapsto> PStr ''a.txt'']"
    by (simp add: fingerprint_def py_or_def dict_get_def)
  from a b show ?thesis by simp
qed

section \<open>The index manager\<close>

lemma add_documents_raises:
  "add_documents E fm docs w =
     (Inl (Exn TypeError
             (Msg (''argument of type '' @ apos @ ''NoneType'' @ apos @ '' is not iterable'')) None),
      fm, w)"
  by (simp add: add_documents_def py_in_None_def)

lemma FaissManager_init_raises:
  "\<exists>e w'. FaissManager_init E dir ml w = (Inl e, w')"
  by (cases ml; cases "new_ModelLoader E (mkdir dir w)"; cases "fst (new_ModelLoader E (mkdir dir w))")
     (auto simp: FaissManager_init_def bind_res_def Let_def)

text \<open>
  C1: \<open>add_documents\<close> is to skip the chunks already in the ledger and return the number
  added. On the code it returns no number at all: line 171 evaluates \<open>self.vs in None\<close>,
  a \<open>TypeError\<close> for every manager, loaded or not, and every chunk list; the manager
  and the files stay as they were. The constructor itself ends in an \<open>AttributeError\<close>.
\<close>

theorem add_documents_never_returns_count:
  "(\<forall>n. fst (add_documents E fm docs w) \<noteq> Inr n)
   \<and> add_documents E (fm\<lparr>vs := Some ix\<rparr>) docs w =
       (Inl (Exn TypeError
               (Msg (''argument of type '' @ apos @ ''NoneType'' @ apos @ '' is not iterable''))
               None),
        fm\<lparr>vs := Some ix\<rparr>, w)
   \<and> (\<exists>e w'. FaissManager_init E dir ml w = (Inl e, w'))"
  by (simp add: add_documents_raises FaissManager_init_raises)

text \<open>
  C2: before \<open>load_or_create\<close> (no handle loaded) \<open>add_documents\<close> is to fail with the
  state error \<open>RuntimeError("Call load_or_create() before ...")\<close>. It fails, and changes
  neither ledger nor index, but with the \<open>TypeError\<close> of \<open>self.vs in None\<close>.
\<close>

theorem add_documents_unloaded_TypeError:
  "add_documents E (fm\<lparr>vs := None\<rparr>) docs w =
     (Inl (Exn TypeError
             (Msg (''argument of type '' @ apos @ ''NoneType'' @ apos @ '' is not iterable''))
             None),
      fm\<lparr>vs := None\<rparr>, w)
   \<and> fst (add_documents E (fm\<lparr>vs := None\<rparr>) docs w)
       \<noteq> Inl (Exn RuntimeError
                 (Msg ''Call load_or_create() before add_documents_idempotent().'') None)"
  by (simp add: add_documents_raises)







section \<open>The conversational chain\<close>

lemma log_call_error:
  "log_call ''error'' msg w = (Inr (), w\<lparr>logs := logs w @ [(ERROR, msg)]\<rparr>)"
  by (simp add: log_call_def log_method_def)

lemma log_call_warning:
  "log_call ''warning'' msg w = (Inr (), w\<lparr>logs := logs w @ [(WARNING, msg)]\<rparr>)"
  by (simp add: log_call_def log_method_def)

lemma log_call_info:
  "log_call ''info'' msg w = (Inr (), w\<lparr>logs := logs w @ [(INFO, msg)]\<rparr>)"
  by (simp add: log_call_def log_method_def)

lemma except_wrap_Inl:
  "except_wrap msg a (Inl e, w) =
     (Inl (Exn ProjectException (a e) (Some e)), w\<lparr>logs := logs w @ [(ERROR, msg e)]\<rparr>)"
  by (simp add: except_wrap_def bind_res_def log_call_error ProjectException_new_def)

lemma except_wrap_Inr: "except_wrap msg a (Inr x, w) = (Inr x, w)"
  by (simp add: except_wrap_def)

lemma fst_except_wrap_Inl:
  "fst r = Inl e \<Longrightarrow> fst (except_wrap msg a r) = Inl (Exn ProjectException (a e) (Some e))"
  by (cases r) (simp add: except_wrap_Inl)

text \<open>
  C5: with no chain assembled (the state of an instance that was given no retriever),
  \<open>invoke\<close> produces no answer for any input and history: it raises the application
  exception, which carries as its cause the state error telling the caller to call
  \<open>load_retriever_from_faiss()\<close> before \<open>invoke()\<close>; the same error is logged.
\<close>

theorem invoke_without_chain_fails:
  "rag_chain self = None \<Longrightarrow>
   invoke self user_input chat_history w =
     (Inl (Exn ProjectException (Msg ''Invocation error in ConversationalRAG'')
             (Some (Exn ProjectException
                      (Msg ''RAG chain not initialized. Call load_retriever_from_faiss() before invoke().'')
                      None))),
      w\<lparr>logs := logs w @
           [(ERROR, [Txt ''Failed to invoke ConversationalRAG '',
                     ExnStr (Exn ProjectException
                       (Msg ''RAG chain not initialized. Call load_retriever_from_faiss() before invoke().'')
                       None)])]\<rparr>)"
  by (simp add: invoke_def except_wrap_Inl ProjectException_new_def)

theorem invoke_without_chain_fails_witness:
  "rag_chain toy_rag = None
   \<and> fst (invoke toy_rag ''What color is the sky?'' None toy_world) =
       Inl (Exn ProjectException (Msg ''Invocation error in ConversationalRAG'')
             (Some (Exn ProjectException
                      (Msg ''RAG chain not initialized. Call load_retriever_from_faiss() before invoke().'')
                      None)))"
proof -
  have h: "rag_chain toy_rag = None" by (simp add: toy_rag_def)
  show ?thesis
    using h invoke_without_chain_fails [OF h, of "''What color is the sky?''" None toy_world]
    by simp
qed

text \<open>
  C6, as amended. For a string \<open>s\<close> that the chain produces: of length 1 to 4096 it is
  returned unchanged; longer than 4096 it is rejected, not truncated, by the application
  exception whose cause wraps the validation error; of length 0 it is not rejected:
  \<open>invoke\<close> returns the fallback \<open>"No answer generated."\<close>.
\<close>

theorem invoke_answer_validation:
  "rag_chain self = Some c
   \<and> c \<lparr>p_input = user_input,
         p_chat_history = (case chat_history of None \<Rightarrow> [] | Some h \<Rightarrow> h)\<rparr> = Inr (PStr s)
   \<longrightarrow>
     (1 \<le> length s \<and> length s \<le> 4096 \<longrightarrow>
        fst (invoke self user_input chat_history w) = Inr s)
     \<and> (4096 < length s \<longrightarrow>
        fst (invoke self user_input chat_history w) =
          Inl (Exn ProjectException (Msg ''Invocation error in ConversationalRAG'')
                 (Some (Exn ProjectException
                          (Err (Exn ValidationError
                                  (Msg ''String should have at most 4096 characters'') None))
                          (Some (Exn ValidationError
                                  (Msg ''String should have at most 4096 characters'') None))))))
     \<and> (length s = 0 \<longrightarrow>
        fst (invoke self user_input chat_history w) = Inr ''No answer generated.'')"
proof (intro impI conjI)
  assume a: "rag_chain self = Some c
   \<and> c \<lparr>p_input = user_input,
         p_chat_history = (case chat_history of None \<Rightarrow> [] | Some h \<Rightarrow> h)\<rparr> = Inr (PStr s)"
  {
    assume "1 \<le> length s \<and> length s \<le> 4096"
    then have "s \<noteq> []" and "\<not> length s < 1" and "\<not> 4096 < length s" by auto
    with a show "fst (invoke self user_input chat_history w) = Inr s"
      by (simp add: invoke_def ChatAnswer_validate_def bind_res_def log_call_info
                    except_wrap_Inr)
  next
    assume "4096 < length s"
    then have "s \<noteq> []" and "\<not> length s < 1" by auto
    with a \<open>4096 < length s\<close>
    show "fst (invoke self user_input chat_history w) =
          Inl (Exn ProjectException (Msg ''Invocation error in ConversationalRAG'')
                 (Some (Exn ProjectException
                          (Err (Exn ValidationError
                                  (Msg ''String should have at most 4096 characters'') None))
                          (Some (Exn ValidationError
                                  (Msg ''String should have at most 4096 characters'') None)))))"
      by (simp add: invoke_def ChatAnswer_validate_def bind_res_def log_call_error
                    except_wrap_Inl ProjectException_new_def)
  next
    assume "length s = 0"
    with a show "fst (invoke self user_input chat_history w) = Inr ''No answer generated.''"
      by (simp add: invoke_def bind_res_def log_call_warning except_wrap_Inr)
  }
qed

theorem invoke_answer_validation_witness:
  "fst (invoke (toy_rag\<lparr>rag_chain := Some (\<lambda>p. Inr (PStr ''Blue.''))\<rparr>) ''q'' None toy_world)
     = Inr ''Blue.''
   \<and> fst (invoke (toy_rag\<lparr>rag_chain := Some (\<lambda>p. Inr (PStr (replicate 4097 (CHR ''a''))))\<rparr>)
            ''q'' None toy_world)
     = Inl (Exn ProjectException (Msg ''Invocation error in ConversationalRAG'')
              (Some (Exn ProjectException
                       (Err (Exn ValidationError
                               (Msg ''String should have at most 4096 characters'') None))
                       (Some (Exn ValidationError
                               (Msg ''String should have at most 4096 characters'') None)))))
   \<and> fst (invoke (toy_rag\<lparr>rag_chain := Some (\<lambda>p. Inr (PStr ''''))\<rparr>) ''q'' None toy_world)
     = Inr ''No answer generated.''"
proof -
  have a: "fst (invoke (toy_rag\<lparr>rag_chain := Some (\<lambda>p. Inr (PStr ''Blue.''))\<rparr>) ''q'' None
                  toy_world) = Inr ''Blue.''"
    using invoke_answer_validation
      [where self = "toy_rag\<lparr>rag_chain := Some (\<lambda>p. Inr (PStr ''Blue.''))\<rparr>"
         and c = "\<lambda>p. Inr (PStr ''Blue.'')" and user_input = "''q''" and chat_history = None
         and s = "''Blue.''" and w = toy_world]
    by simp
  have b: "fst (invoke (toy_rag\<lparr>rag_chain := Some (\<lambda>p. Inr (PStr (replicate 4097 (CHR ''a''))))\<rparr>)
            ''q'' None toy_world)
     = Inl (Exn ProjectException (Msg ''Invocation error in ConversationalRAG'')
              (Some (Exn ProjectException
                       (Err (Exn ValidationError
                               (Msg ''String should have at most 4096 characters'') None))
                       (Some (Exn ValidationError
                               (Msg ''String should have at most 4096 characters'') None)))))"
    using invoke_answer_validation
      [where self = "toy_rag\<lparr>rag_chain := Some (\<lambda>p. Inr (PStr (replicate 4097 (CHR ''a''))))\<rparr>"
         and c = "\<lambda>p. Inr (PStr (replicate 4097 (CHR ''a'')))" and user_input = "''q''"
         and chat_history = None and s = "replicate 4097 (CHR ''a'')" and w = toy_world]
    by simp
  have c: "fst (invoke (toy_rag\<lparr>rag_chain := Some (\<lambda>p. Inr (PStr ''''))\<rparr>) ''q'' None toy_world)
     = Inr ''No answer generated.''"
    using invoke_answer_validation
      [where self = "toy_rag\<lparr>rag_chain := Some (\<lambda>p. Inr (PStr ''''))\<rparr>"
         and c = "\<lambda>p. Inr (PStr '''')" and user_input = "''q''" and chat_history = None
         and s = "''''" and w = toy_world]
    by simp
  from a b c show ?thesis by simp
qed

text \<open>
  C6 as stated fails at the empty answer: it has length 0, and \<open>invoke\<close> raises nothing
  but returns the fallback string.
\<close>

theorem invoke_empty_answer_counterexample:
  "length (''''::string) = 0
   \<and> \<not> isl (fst (invoke (toy_rag\<lparr>rag_chain := Some (\<lambda>p. Inr (PStr ''''))\<rparr>) ''q'' None toy_world))
   \<and> fst (invoke (toy_rag\<lparr>rag_chain := Some (\<lambda>p. Inr (PStr ''''))\<rparr>) ''q'' None toy_world)
       = Inr ''No answer generated.''"
  by (simp add: invoke_def toy_rag_def bind_res_def log_call_warning except_wrap_Inr)

text \<open>
  C7: whenever the chain returns a falsy result (\<open>None\<close>, the empty string, \<open>0\<close>,
  \<open>False\<close>), \<open>invoke\<close> raises nothing: it logs one warning and returns the literal
  \<open>"No answer generated."\<close>.
\<close>

theorem invoke_falsy_fallback:
  "rag_chain self = Some c \<Longrightarrow>
   c \<lparr>p_input = user_input,
      p_chat_history = (case chat_history of None \<Rightarrow> [] | Some h \<Rightarrow> h)\<rparr> = Inr a \<Longrightarrow>
   \<not> truthy a \<Longrightarrow>
   invoke self user_input chat_history w =
     (Inr ''No answer generated.'',
      w\<lparr>logs := logs w @
           [(WARNING, [Txt (''No answer generated, user_input='' @ user_input
                            @ '', session_id='' @ opt_str (session_id self))])]\<rparr>)"
  by (simp add: invoke_def bind_res_def log_call_warning except_wrap_Inr)

theorem invoke_falsy_fallback_witness:
  "\<not> truthy PNone
   \<and> fst (invoke (toy_rag\<lparr>rag_chain := Some (\<lambda>p. Inr PNone)\<rparr>) ''q'' (Some [''earlier'']) toy_world)
       = Inr ''No answer generated.''
   \<and> logs (snd (invoke (toy_rag\<lparr>rag_chain := Some (\<lambda>p. Inr PNone)\<rparr>) ''q'' (Some [''earlier''])
                   toy_world))
       = [(WARNING, [Txt ''No answer generated, user_input=q, session_id=s1''])]"
proof -
  have h1: "rag_chain (toy_rag\<lparr>rag_chain := Some (\<lambda>p. Inr PNone)\<rparr>) = Some (\<lambda>p. Inr PNone)"
    by simp
  have h2: "(\<lambda>p. Inr PNone)
              \<lparr>p_input = ''q'',
               p_chat_history = (case Some [''earlier''] of None \<Rightarrow> [] | Some h \<Rightarrow> h)\<rparr>
            = (Inr PNone :: exn + pyval)"
    by simp
  have h3: "\<not> truthy PNone" by simp
  show ?thesis
    using invoke_falsy_fallback [OF h1 h2 h3, where w = toy_world]
    by (simp add: toy_world_def toy_rag_def opt_str_def)
qed

section \<open>Saving uploads and building retrievers\<close>

lemma suffix_notes_exe: "py_lower (path_suffix ''notes.exe'') = ''.exe''"
  by (simp add: path_suffix_def path_name_def py_lower_def lower_char_def Let_def)

lemma suffix_report_txt: "py_lower (path_suffix ''report.txt'') = ''.txt''"
  by (simp add: path_suffix_def path_name_def py_lower_def lower_char_def Let_def)

lemma stem_report_txt: "py_lower (re_sub_unsafe (path_stem ''report.txt'')) = ''report''"
  by (simp add: path_stem_def path_name_def py_lower_def lower_char_def re_sub_unsafe_def
                safe_char_def Let_def)

text \<open>
  C8: a file with an extension outside the allow-list is to be skipped with a warning,
  the rest of the batch saved. On the code the first such file ends the whole call:
  line 26 calls \<open>log.warrning\<close>, no method of the logger, and the \<open>AttributeError\<close> is
  re-raised as the application exception; \<open>report.txt\<close>, next in the batch, is not
  written.
\<close>

theorem save_uploaded_files_unsupported_raises:
  "save_uploaded_files [toy_upload ''notes.exe'' ''MZ'', toy_upload ''report.txt'' ''hello'']
       ''data/s1'' toy_world =
     (Inl (Exn ProjectException
             (Err (Exn AttributeError
                     (Msg (''module '' @ apos @ ''logging'' @ apos @ '' has no attribute ''
                           @ apos @ ''warrning'' @ apos)) None))
             (Some (Exn AttributeError
                     (Msg (''module '' @ apos @ ''logging'' @ apos @ '' has no attribute ''
                           @ apos @ ''warrning'' @ apos)) None))),
      toy_world\<lparr>dirs := {''data/s1''}, logs := [(ERROR, [Txt ''''])]\<rparr>)
   \<and> files (snd (save_uploaded_files
                   [toy_upload ''notes.exe'' ''MZ'', toy_upload ''report.txt'' ''hello'']
                   ''data/s1'' toy_world)) = Map.empty"
  by (simp add: save_uploaded_files_def toy_upload_def upload_name_def suffix_notes_exe
                SUPPORTED_EXTENSIONS_io_def log_call_def log_method_def mkdir_def toy_world_def
                ProjectException_new_def)

text \<open>
  C9: a retriever for \<open>mmr\<close> is to carry \<open>fetch_k\<close> and \<open>lambda_mult\<close> beside \<open>k\<close>, from
  \<open>build_retriver\<close> and from \<open>load_retriever_from_faiss\<close> alike. Lines 106 to 111 of
  \<open>build_retriver\<close> compute that; line 84 of \<open>load_retriever_from_faiss\<close> tests
  \<open>search_kwargs == "mmr"\<close> instead of \<open>search_type\<close>, so the retriever loaded from a
  persisted index carries \<open>k\<close> alone.
\<close>

theorem load_retriever_mmr_lacks_fetch_k:
  "build_search_kwargs k ''mmr'' fetch_k lambda_mult =
     [''k'' \<mapsto> KInt k, ''fetch_k'' \<mapsto> KInt fetch_k, ''lambda_mult'' \<mapsto> KFloat lambda_mult]
   \<and> load_search_kwargs None k fetch_k lambda_mult = [''k'' \<mapsto> KInt k]
   \<and> load_search_kwargs None k fetch_k lambda_mult ''fetch_k'' = None
   \<and> load_search_kwargs None k fetch_k lambda_mult ''lambda_mult'' = None
   \<and> fst (load_retriever_from_faiss toy_env toy_rag ''idx'' 5 ''index'' ''mmr'' 20 (1 / 2) None
            (toy_world\<lparr>files := [''idx/index.faiss'' \<mapsto> ''faiss'',
                                  ''idx/index.pkl'' \<mapsto> ''The sky is blue.''],
                        dirs := {''idx''}\<rparr>)) =
       Inr \<lparr>r_index = Faiss [mk_doc ''The sky is blue.''], r_search_type = ''mmr'',
            r_search_kwargs = [''k'' \<mapsto> KInt 5]\<rparr>"
proof -
  have a: "build_search_kwargs k ''mmr'' fetch_k lambda_mult =
     [''k'' \<mapsto> KInt k, ''fetch_k'' \<mapsto> KInt fetch_k, ''lambda_mult'' \<mapsto> KFloat lambda_mult]"
    by (simp add: build_search_kwargs_def)
  have b: "load_search_kwargs None i j x = [''k'' \<mapsto> KInt i]" for i j x
    by (simp add: load_search_kwargs_def dict_eq_str_def)
  have c: "fst (load_retriever_from_faiss toy_env toy_rag ''idx'' 5 ''index'' ''mmr'' 20 (1 / 2) None
            (toy_world\<lparr>files := [''idx/index.faiss'' \<mapsto> ''faiss'',
                                  ''idx/index.pkl'' \<mapsto> ''The sky is blue.''],
                        dirs := {''idx''}\<rparr>)) =
       Inr \<lparr>r_index = Faiss [mk_doc ''The sky is blue.''], r_search_type = ''mmr'',
            r_search_kwargs = [''k'' \<mapsto> KInt 5]\<rparr>"
    by (simp add: load_retriever_from_faiss_def toy_env_def toy_load_local_def path_join_def
                  toy_world_def toy_rag_def b build_lcel_chain_def log_call_info
                  except_wrap_Inr)
  from a b c show ?thesis by simp
qed

lemma save_loop_all_saved:
  "\<forall>uf\<in>set ufs. upload_supported uf \<and> upload_readable uf \<Longrightarrow>
   \<exists>saved' w'. save_loop dir ufs saved w = (Inr saved', w')
      \<and> length saved' = length saved + length ufs"
proof (induction ufs arbitrary: saved w)
  case Nil
  then show ?case by simp
next
  case (Cons uf ufs)
  from Cons.prems have sup: "py_lower (path_suffix (upload_name uf)) \<in> set SUPPORTED_EXTENSIONS_io"
    by (simp add: upload_supported_def)
  from Cons.prems obtain b where rd: "upload_bytes uf = Inr b"
    by (auto simp: upload_readable_def split: sum.splits)
  from Cons.prems have rest: "\<forall>u\<in>set ufs. upload_supported u \<and> upload_readable u"
    by simp
  obtain hex w1 where u: "uuid4_hex w = (hex, w1)"
    by (cases "uuid4_hex w")
  define out where
    "out = path_join dir (py_lower (re_sub_unsafe (path_stem (upload_name uf))) @ ''_''
                          @ take 6 hex @ py_lower (path_suffix (upload_name uf)))"
  define w4 where
    "w4 = (w1\<lparr>files := (files w1)(out \<mapsto> b)\<rparr>)\<lparr>logs := logs w1 @
             [(INFO, [Txt (''File saved for ingestion, uploaded='' @ upload_name uf
                           @ '', saved_as='' @ out)])]\<rparr>"
  have step: "save_loop dir (uf # ufs) saved w = save_loop dir ufs (saved @ [out]) w4"
    using sup rd u by (simp add: Let_def log_call_info out_def w4_def)
  from Cons.IH [OF rest, of "saved @ [out]" w4] step show ?case
    by auto
qed

lemma save_uploaded_files_cases:
  "(\<exists>w'. save_uploaded_files ufs dir w = (Inr None, w'))
   \<or> (\<exists>e w'. save_uploaded_files ufs dir w = (Inl (Exn ProjectException (Err e) (Some e)), w'))"
proof (cases "save_loop dir ufs [] (mkdir dir w)")
  case (Pair r w')
  then show ?thesis
    by (cases r) (simp_all add: save_uploaded_files_def log_call_error ProjectException_new_def)
qed

lemma load_documents_None:
  "\<exists>e w'. load_documents E None w = (Inl e, w')"
  by (simp add: load_documents_def log_call_error)

lemma build_retriver_raises:
  "\<exists>e. fst (build_retriver E self ufs k search_type fetch_k lambda_mult w) = Inl e"
proof -
  let ?inner = "bind_res (save_uploaded_files ufs (temp_dir self) w)
          (\<lambda>paths w1.
             bind_res (load_documents E paths w1)
               (\<lambda>docs w2.
                  bind_res (split_docs E docs w2)
                    (\<lambda>chunks w3.
                       index_and_retrieve E self chunks k search_type fetch_k lambda_mult w3)))"
  have "\<exists>e. fst ?inner = Inl e"
    using save_uploaded_files_cases [of ufs "temp_dir self" w]
  proof
    assume "\<exists>w'. save_uploaded_files ufs (temp_dir self) w = (Inr None, w')"
    then obtain w' where s: "save_uploaded_files ufs (temp_dir self) w = (Inr None, w')" ..
    obtain e w2 where "load_documents E None w' = (Inl e, w2)"
      using load_documents_None by blast
    with s show ?thesis by (simp add: bind_res_def)
  next
    assume "\<exists>e w'. save_uploaded_files ufs (temp_dir self) w =
              (Inl (Exn ProjectException (Err e) (Some e)), w')"
    then show ?thesis by (auto simp: bind_res_def)
  qed
  then obtain e where "fst ?inner = Inl e" ..
  then show ?thesis
    unfolding build_retriver_def by (simp add: fst_except_wrap_Inl)
qed

text \<open>
  C10: \<open>save_uploaded_files\<close> never returns the list of paths. Every call either raises
  the application exception or returns \<open>None\<close>; for a batch of files that are all
  supported and readable the loop saves and collects one path per file and the call
  returns \<open>None\<close>. The orchestrator so gets no paths: \<open>build_retriver\<close> passes \<open>None\<close>
  to \<open>load_documents\<close> and ends in an exception for every batch.
\<close>

theorem save_uploaded_files_returns_None:
  "((\<exists>w'. save_uploaded_files ufs dir w = (Inr None, w'))
     \<or> (\<exists>e w'. save_uploaded_files ufs dir w =
                  (Inl (Exn ProjectException (Err e) (Some e)), w')))
   \<and> ((\<forall>uf\<in>set ufs. upload_supported uf \<and> upload_readable uf) \<longrightarrow>
        (\<exists>saved w'. save_loop dir ufs [] (mkdir dir w) = (Inr saved, w')
            \<and> length saved = length ufs
            \<and> save_uploaded_files ufs dir w = (Inr None, w')))
   \<and> (\<exists>e. fst (build_retriver E self ufs k search_type fetch_k lambda_mult w) = Inl e)"
proof (intro conjI impI)
  show "(\<exists>w'. save_uploaded_files ufs dir w = (Inr None, w'))
     \<or> (\<exists>e w'. save_uploaded_files ufs dir w =
                  (Inl (Exn ProjectException (Err e) (Some e)), w'))"
    by (rule save_uploaded_files_cases)
next
  assume "\<forall>uf\<in>set ufs. upload_supported uf \<and> upload_readable uf"
  from save_loop_all_saved [OF this, of dir "[]" "mkdir dir w"]
  obtain saved w' where "save_loop dir ufs [] (mkdir dir w) = (Inr saved, w')"
    and "length saved = length ufs" by auto
  then show "\<exists>saved w'. save_loop dir ufs [] (mkdir dir w) = (Inr saved, w')
            \<and> length saved = length ufs
            \<and> save_uploaded_files ufs dir w = (Inr None, w')"
    by (simp add: save_uploaded_files_def)
next
  show "\<exists>e. fst (build_retriver E self ufs k search_type fetch_k lambda_mult w) = Inl e"
    by (rule build_retriver_raises)
qed

theorem save_uploaded_files_returns_None_witness:
  "upload_supported (toy_upload ''report.txt'' ''hello'')
   \<and> upload_readable (toy_upload ''report.txt'' ''hello'')
   \<and> fst (save_uploaded_files [toy_upload ''report.txt'' ''hello''] ''data/s1'' toy_world) = Inr None
   \<and> files (snd (save_uploaded_files [toy_upload ''report.txt'' ''hello''] ''data/s1'' toy_world))
       = [''data/s1/report_012345.txt'' \<mapsto> ''hello'']
   \<and> isl (fst (build_retriver toy_env toy_ingestor [toy_upload ''report.txt'' ''hello'']
                  5 ''mmr'' 20 (1 / 2) toy_world))"
proof -
  let ?ufs = "[toy_upload ''report.txt'' ''hello'']"
  have h: "\<forall>uf\<in>set ?ufs. upload_supported uf \<and> upload_readable uf"
    by (simp add: upload_supported_def upload_readable_def upload_bytes_def toy_upload_def
                  upload_name_def suffix_report_txt SUPPORTED_EXTENSIONS_io_def)
  note T = save_uploaded_files_returns_None
             [where ufs = ?ufs and dir = "''data/s1''" and w = toy_world and E = toy_env
                and self = toy_ingestor and k = 5 and search_type = "''mmr''" and fetch_k = 20
                and lambda_mult = "1 / 2"]
  from T h have a: "fst (save_uploaded_files ?ufs ''data/s1'' toy_world) = Inr None"
    by auto
  have b: "files (snd (save_uploaded_files ?ufs ''data/s1'' toy_world))
       = [''data/s1/report_012345.txt'' \<mapsto> ''hello'']"
    by (simp add: save_uploaded_files_def toy_upload_def upload_name_def suffix_report_txt
                  stem_report_txt SUPPORTED_EXTENSIONS_io_def uuid4_hex_def upload_bytes_def
                  log_call_info mkdir_def toy_world_def path_join_def Let_def)
  from T have c: "isl (fst (build_retriver toy_env toy_ingestor ?ufs 5 ''mmr'' 20 (1 / 2) toy_world))"
    by auto
  from h a b c show ?thesis by simp
qed

end
